theory Spec2Isabelle
  imports Main
begin

section \<open>The chat backend actor (src/backend/main.mo)\<close>

text \<open>
  The Motoko actor keeps six mutable variables: two id counters and four maps keyed by
  \<open>Nat\<close> (\<open>OrderedMap.Make<Nat>(Nat.compare)\<close>): the chatrooms, the message log of every
  chatroom, the presence list of every chatroom and the reactions of every message.
  \<open>Nat\<close> and \<open>Int\<close> are unbounded in Motoko and are \<open>nat\<close> and \<open>int\<close> here; \<open>Text\<close> is
  \<open>string\<close>; \<open>List.List\<close> is \<open>list\<close> (\<open>List.push\<close> is \<open>#\<close>); \<open>?T\<close> is \<open>option\<close>.
  \<open>Time.now()\<close> is the time of the message being executed, the same at every read within
  one call: each operation takes it as its argument \<open>now\<close>.
\<close>

subsection \<open>The ordered map over \<open>Nat\<close> keys\<close>

text \<open>
  An \<open>OrderedMap.Map<Nat, V>\<close> holds at most one value per key and lists its entries in
  ascending key order. It is the type of the key-sorted association lists; \<open>put\<close> inserts
  at the key's place or replaces the value that is there.
\<close>

fun ins :: "nat \<Rightarrow> 'v \<Rightarrow> (nat \<times> 'v) list \<Rightarrow> (nat \<times> 'v) list" where
  "ins k v [] = [(k, v)]"
| "ins k v ((k', v') # kvs) =
     (if k < k' then (k, v) # (k', v') # kvs
      else if k = k' then (k, v) # kvs
      else (k', v') # ins k v kvs)"

typedef 'v natMap = "{kvs :: (nat \<times> 'v) list. sorted_wrt (<) (map fst kvs)}"
  by (rule exI[of _ "[]"]) simp

setup_lifting type_definition_natMap

lift_definition natMap_empty :: "'v natMap" is "[]"
  by simp

lift_definition natMap_get :: "'v natMap \<Rightarrow> nat \<Rightarrow> 'v option" is map_of .

lift_definition natMap_put :: "'v natMap \<Rightarrow> nat \<Rightarrow> 'v \<Rightarrow> 'v natMap" is "\<lambda>kvs k v. ins k v kvs"
proof -
  fix kvs :: "(nat \<times> 'v) list" and k :: nat and v :: 'v
  have keys: "fst ` set (ins k v xs) = insert k (fst ` set xs)" for xs :: "(nat \<times> 'v) list"
    by (induction xs) force+
  show "sorted_wrt (<) (map fst kvs) \<Longrightarrow> sorted_wrt (<) (map fst (ins k v kvs))"
  proof (induction kvs)
    case Nil
    then show ?case by simp
  next
    case (Cons a kvs)
    obtain k' v' where a: "a = (k', v')" by (cases a)
    show ?case
    proof (cases "k < k'")
      case True
      with Cons.prems a show ?thesis by fastforce
    next
      case False
      show ?thesis
      proof (cases "k = k'")
        case True
        with Cons.prems a show ?thesis by simp
      next
        case ne: False
        with False have gt: "k' < k" by simp
        have "\<forall>x \<in> fst ` set (ins k v kvs). k' < x"
          using Cons.prems a gt by (auto simp: keys)
        moreover have "sorted_wrt (<) (map fst (ins k v kvs))"
          using Cons.IH Cons.prems by simp
        ultimately show ?thesis using a False ne by auto
      qed
    qed
  qed
qed

lift_definition natMap_entries :: "'v natMap \<Rightarrow> (nat \<times> 'v) list" is "\<lambda>kvs. kvs" .

subsection \<open>The actor's types and state\<close>

text \<open>
  The record fields carry the source's names behind a letter for their type (\<open>m_\<close> for
  \<open>Message\<close>, \<open>c_\<close> for \<open>Chatroom\<close>, \<open>u_\<close> for \<open>ActiveUser\<close>, \<open>r_\<close> for \<open>Reaction\<close>),
  since several types share field names and the operations' parameters use them too.
  \<open>ChatroomWithLiveStatus\<close> is \<open>Chatroom\<close> extended by the two computed fields, as
  \<open>{ chatroom with isLive = ...; activeUserCount }\<close> builds it.
\<close>

record Message =
  m_id :: nat
  m_content :: string
  m_timestamp :: int
  m_sender :: string
  m_chatroomId :: nat
  m_mediaUrl :: "string option"
  m_mediaType :: "string option"
  m_avatarUrl :: "string option"
  m_senderId :: string
  m_replyToMessageId :: "nat option"

record Chatroom =
  c_id :: nat
  c_topic :: string
  c_description :: string
  c_mediaUrl :: string
  c_mediaType :: string
  c_createdAt :: int
  c_messageCount :: nat
  c_viewCount :: nat
  c_pinnedVideoId :: "nat option"
  c_category :: string

record ActiveUser =
  u_userId :: string
  u_lastActive :: int

record ChatroomWithLiveStatus = Chatroom +
  isLive :: bool
  activeUserCount :: nat

record Reaction =
  r_emoji :: string
  r_count :: nat
  r_users :: "string list"

record state =
  nextMessageId :: nat
  nextChatroomId :: nat
  chatrooms :: "Chatroom natMap"
  messages :: "Message list natMap"
  activeUsers :: "ActiveUser list natMap"
  reactions :: "Reaction list natMap"

text \<open>The actor as deployed: both counters 0, the four maps empty.\<close>

definition init :: state where
  "init = \<lparr>nextMessageId = 0, nextChatroomId = 0, chatrooms = natMap_empty,
     messages = natMap_empty, activeUsers = natMap_empty, reactions = natMap_empty\<rparr>"

text \<open>
  \<open>Debug.trap\<close> aborts the call; the constructors stand for the trap messages, in the
  order of the source: "Topic and description cannot be empty", "Media URL is required",
  "Category is required", "Invalid media URL format. ...", "Message content cannot be
  empty", "Chatroom does not exist", "Unauthorized: Only admins can perform cleanup
  operations".
\<close>

datatype trap =
  TopicOrDescriptionEmpty
  | MediaUrlRequired
  | CategoryRequired
  | InvalidMediaUrl
  | ContentEmpty
  | ChatroomDoesNotExist
  | Unauthorized

subsection \<open>Media URL validation\<close>

text \<open>
  \<open>Text.toLowercase\<close>, \<open>Text.contains\<close> and \<open>Text.endsWith\<close> of the Motoko base library,
  on the characters of a \<open>string\<close>: the letters A to Z are lowered, a pattern is contained
  when it starts at some position, and ends a text when it starts the reversed text
  reversed.
\<close>

definition toLowercase_char :: "char \<Rightarrow> char" where
  "toLowercase_char c =
     (if (65::nat) \<le> of_char c \<and> of_char c \<le> (90::nat) then char_of (of_char c + (32::nat)) else c)"

definition toLowercase :: "string \<Rightarrow> string" where
  "toLowercase t = map toLowercase_char t"

fun startsWith :: "string \<Rightarrow> string \<Rightarrow> bool" where
  "startsWith t [] = True"
| "startsWith [] (p # ps) = False"
| "startsWith (c # cs) (p # ps) = (c = p \<and> startsWith cs ps)"

fun contains :: "string \<Rightarrow> string \<Rightarrow> bool" where
  "contains [] p = startsWith [] p"
| "contains (c # cs) p = (startsWith (c # cs) p \<or> contains cs p)"

definition endsWith :: "string \<Rightarrow> string \<Rightarrow> bool" where
  "endsWith t p = startsWith (rev t) (rev p)"

definition isValidImageUrl :: "string \<Rightarrow> bool" where
  "isValidImageUrl url =
     (let isBlobStorage = contains url ''blob-storage'' in
      if isBlobStorage then True
      else (let hasImageExtension =
                  endsWith url ''.jpg'' \<or> endsWith url ''.jpeg''
                  \<or> endsWith url ''.png'' \<or> endsWith url ''.gif''
            in hasImageExtension))"

definition isValidYouTubeUrl :: "string \<Rightarrow> bool" where
  "isValidYouTubeUrl url = (contains url ''youtube.com'' \<or> contains url ''youtu.be'')"

definition isValidTwitchUrl :: "string \<Rightarrow> bool" where
  "isValidTwitchUrl url = (contains url ''twitch.tv'' \<or> contains url ''clips.twitch.tv'')"

definition isValidTwitterUrl :: "string \<Rightarrow> bool" where
  "isValidTwitterUrl url = (contains url ''twitter.com'' \<or> contains url ''x.com'')"

definition validateMediaUrl :: "string \<Rightarrow> string \<Rightarrow> bool" where
  "validateMediaUrl url mediaType =
     (let lowerUrl = toLowercase url in
      if mediaType = ''image'' then isValidImageUrl lowerUrl
      else if mediaType = ''youtube'' then isValidYouTubeUrl lowerUrl
      else if mediaType = ''twitch'' then isValidTwitchUrl lowerUrl
      else if mediaType = ''twitter'' then isValidTwitterUrl lowerUrl
      else False)"

subsection \<open>Chatrooms and messages\<close>

text \<open>
  An update call returns \<open>Inl\<close> of its trap or \<open>Inr\<close> of the state it leaves (with the
  chatroom's id for \<open>createChatroom\<close>); a query returns its value. The seed message of a
  chatroom and the message of \<open>sendMessage\<close> are the source's \<open>firstMessage\<close> and
  \<open>message\<close>, built from the counters of the state the call starts in.
\<close>

definition firstMessage :: "int \<Rightarrow> string \<Rightarrow> string \<Rightarrow> state \<Rightarrow> Message" where
  "firstMessage now mediaUrl mediaType s =
     \<lparr>m_id = nextMessageId s,
      m_content = ''Media content posted by creator'',
      m_timestamp = now,
      m_sender = ''Creator'',
      m_chatroomId = nextChatroomId s,
      m_mediaUrl = Some mediaUrl,
      m_mediaType = Some mediaType,
      m_avatarUrl = None,
      m_senderId = ''creator'',
      m_replyToMessageId = None\<rparr>"

definition createChatroom ::
  "int \<Rightarrow> string \<Rightarrow> string \<Rightarrow> string \<Rightarrow> string \<Rightarrow> string \<Rightarrow> state \<Rightarrow> trap + (nat \<times> state)" where
  "createChatroom now topic description mediaUrl mediaType category s =
     (if length topic = 0 \<or> length description = 0 then Inl TopicOrDescriptionEmpty
      else if length mediaUrl = 0 then Inl MediaUrlRequired
      else if length category = 0 then Inl CategoryRequired
      else if \<not> validateMediaUrl mediaUrl mediaType then Inl InvalidMediaUrl
      else
        (let chatroom =
               \<lparr>c_id = nextChatroomId s,
                c_topic = topic,
                c_description = description,
                c_mediaUrl = mediaUrl,
                c_mediaType = mediaType,
                c_createdAt = now,
                c_messageCount = 1,
                c_viewCount = 0,
                c_pinnedVideoId = None,
                c_category = category\<rparr>;
             s1 = s\<lparr>chatrooms := natMap_put (chatrooms s) (nextChatroomId s) chatroom\<rparr>;
             s2 = s1\<lparr>messages := natMap_put (messages s1) (nextChatroomId s1) []\<rparr>;
             s3 = s2\<lparr>messages :=
                    natMap_put (messages s2) (nextChatroomId s2)
                      [firstMessage now mediaUrl mediaType s2]\<rparr>;
             s4 = s3\<lparr>nextMessageId := nextMessageId s3 + 1\<rparr>;
             s5 = s4\<lparr>nextChatroomId := nextChatroomId s4 + 1\<rparr>
         in Inr (c_id chatroom, s5)))"

definition activeThreshold :: nat where
  "activeThreshold = 60 * 1000000000"

definition getChatroom :: "int \<Rightarrow> nat \<Rightarrow> state \<Rightarrow> ChatroomWithLiveStatus option" where
  "getChatroom now ident s =
     (case natMap_get (chatrooms s) ident of
        None \<Rightarrow> None
      | Some chatroom \<Rightarrow>
          (let currentTime = now;
               activeUsersForRoom =
                 (case natMap_get (activeUsers s) ident of None \<Rightarrow> [] | Some users \<Rightarrow> users);
               activeUserCount =
                 length (filter (\<lambda>user. nat \<bar>currentTime - u_lastActive user\<bar> \<le> activeThreshold)
                           activeUsersForRoom)
           in Some
                \<lparr>c_id = c_id chatroom,
                 c_topic = c_topic chatroom,
                 c_description = c_description chatroom,
                 c_mediaUrl = c_mediaUrl chatroom,
                 c_mediaType = c_mediaType chatroom,
                 c_createdAt = c_createdAt chatroom,
                 c_messageCount = c_messageCount chatroom,
                 c_viewCount = c_viewCount chatroom,
                 c_pinnedVideoId = c_pinnedVideoId chatroom,
                 c_category = c_category chatroom,
                 isLive = (activeUserCount > 0),
                 activeUserCount = activeUserCount\<rparr>))"

definition newMessage ::
  "int \<Rightarrow> string \<Rightarrow> string \<Rightarrow> nat \<Rightarrow> string option \<Rightarrow> string option \<Rightarrow> string option
     \<Rightarrow> string \<Rightarrow> nat option \<Rightarrow> state \<Rightarrow> Message" where
  "newMessage now content sender chatroomId mediaUrl mediaType avatarUrl senderId
       replyToMessageId s =
     \<lparr>m_id = nextMessageId s,
      m_content = content,
      m_timestamp = now,
      m_sender = sender,
      m_chatroomId = chatroomId,
      m_mediaUrl = mediaUrl,
      m_mediaType = mediaType,
      m_avatarUrl = avatarUrl,
      m_senderId = senderId,
      m_replyToMessageId = replyToMessageId\<rparr>"

definition sendMessage ::
  "int \<Rightarrow> string \<Rightarrow> string \<Rightarrow> nat \<Rightarrow> string option \<Rightarrow> string option \<Rightarrow> string option
     \<Rightarrow> string \<Rightarrow> nat option \<Rightarrow> state \<Rightarrow> trap + state" where
  "sendMessage now content sender chatroomId mediaUrl mediaType avatarUrl senderId
       replyToMessageId s =
     (if length content = 0 then Inl ContentEmpty
      else
        (case natMap_get (chatrooms s) chatroomId of
           None \<Rightarrow> Inl ChatroomDoesNotExist
         | Some chatroom \<Rightarrow>
             (let message =
                    newMessage now content sender chatroomId mediaUrl mediaType avatarUrl
                      senderId replyToMessageId s;
                  chatroomMessages =
                    (case natMap_get (messages s) chatroomId of
                       None \<Rightarrow> []
                     | Some existingMessages \<Rightarrow> existingMessages);
                  s1 = s\<lparr>messages :=
                         natMap_put (messages s) chatroomId (message # chatroomMessages)\<rparr>;
                  s2 = s1\<lparr>nextMessageId := nextMessageId s1 + 1\<rparr>;
                  updatedChatroom = chatroom\<lparr>c_messageCount := c_messageCount chatroom + 1\<rparr>;
                  s3 = s2\<lparr>chatrooms := natMap_put (chatrooms s2) chatroomId updatedChatroom\<rparr>;
                  currentTime = now;
                  activeUsersForRoom =
                    (case natMap_get (activeUsers s3) chatroomId of
                       None \<Rightarrow> []
                     | Some users \<Rightarrow> users);
                  updatedActiveUsers =
                    \<lparr>u_userId = senderId, u_lastActive = currentTime\<rparr>
                      # filter (\<lambda>user. u_userId user \<noteq> senderId) activeUsersForRoom
              in Inr (s3\<lparr>activeUsers :=
                           natMap_put (activeUsers s3) chatroomId updatedActiveUsers\<rparr>))))"

definition getMessages :: "nat \<Rightarrow> state \<Rightarrow> Message list" where
  "getMessages chatroomId s =
     (case natMap_get (messages s) chatroomId of
        None \<Rightarrow> []
      | Some chatroomMessages \<Rightarrow> rev chatroomMessages)"

definition incrementViewCount :: "int \<Rightarrow> nat \<Rightarrow> string \<Rightarrow> state \<Rightarrow> trap + state" where
  "incrementViewCount now chatroomId userId s =
     (case natMap_get (chatrooms s) chatroomId of
        None \<Rightarrow> Inl ChatroomDoesNotExist
      | Some chatroom \<Rightarrow>
          (let updatedChatroom = chatroom\<lparr>c_viewCount := c_viewCount chatroom + 1\<rparr>;
               s1 = s\<lparr>chatrooms := natMap_put (chatrooms s) chatroomId updatedChatroom\<rparr>;
               currentTime = now;
               activeUsersForRoom =
                 (case natMap_get (activeUsers s1) chatroomId of
                    None \<Rightarrow> []
                  | Some users \<Rightarrow> users);
               updatedActiveUsers =
                 \<lparr>u_userId = userId, u_lastActive = currentTime\<rparr>
                   # filter (\<lambda>user. u_userId user \<noteq> userId) activeUsersForRoom
           in Inr (s1\<lparr>activeUsers :=
                        natMap_put (activeUsers s1) chatroomId updatedActiveUsers\<rparr>)))"

definition pinVideo :: "nat \<Rightarrow> nat \<Rightarrow> state \<Rightarrow> trap + state" where
  "pinVideo chatroomId messageId s =
     (case natMap_get (chatrooms s) chatroomId of
        None \<Rightarrow> Inl ChatroomDoesNotExist
      | Some chatroom \<Rightarrow>
          (let updatedChatroom = chatroom\<lparr>c_pinnedVideoId := Some messageId\<rparr>
           in Inr (s\<lparr>chatrooms := natMap_put (chatrooms s) chatroomId updatedChatroom\<rparr>)))"

definition unpinVideo :: "nat \<Rightarrow> state \<Rightarrow> trap + state" where
  "unpinVideo chatroomId s =
     (case natMap_get (chatrooms s) chatroomId of
        None \<Rightarrow> Inl ChatroomDoesNotExist
      | Some chatroom \<Rightarrow>
          (let updatedChatroom = chatroom\<lparr>c_pinnedVideoId := None\<rparr>
           in Inr (s\<lparr>chatrooms := natMap_put (chatrooms s) chatroomId updatedChatroom\<rparr>)))"

definition getPinnedVideo :: "nat \<Rightarrow> state \<Rightarrow> nat option" where
  "getPinnedVideo chatroomId s =
     (case natMap_get (chatrooms s) chatroomId of
        None \<Rightarrow> None
      | Some chatroom \<Rightarrow> c_pinnedVideoId chatroom)"

subsection \<open>Retroactive rewrites and the presence sweep\<close>

text \<open>
  The \<open>for\<close> loops run over the entries of the map as it stands when the call starts and
  put each rewritten list into the accumulator, which starts as that same map.
\<close>

definition updateUsernameRetroactively :: "string \<Rightarrow> string \<Rightarrow> state \<Rightarrow> state" where
  "updateUsernameRetroactively senderId newUsername s =
     (let updatedMessages =
            fold (\<lambda>(chatroomId, chatroomMessages) updatedMessages.
                    (let updatedChatroomMessages =
                           map (\<lambda>message.
                                  if m_senderId message = senderId
                                  then message\<lparr>m_sender := newUsername\<rparr>
                                  else message)
                             chatroomMessages
                     in natMap_put updatedMessages chatroomId updatedChatroomMessages))
              (natMap_entries (messages s)) (messages s)
      in s\<lparr>messages := updatedMessages\<rparr>)"

definition updateAvatarRetroactively :: "string \<Rightarrow> string option \<Rightarrow> state \<Rightarrow> state" where
  "updateAvatarRetroactively senderId newAvatarUrl s =
     (let updatedMessages =
            fold (\<lambda>(chatroomId, chatroomMessages) updatedMessages.
                    (let updatedChatroomMessages =
                           map (\<lambda>message.
                                  if m_senderId message = senderId
                                  then message\<lparr>m_avatarUrl := newAvatarUrl\<rparr>
                                  else message)
                             chatroomMessages
                     in natMap_put updatedMessages chatroomId updatedChatroomMessages))
              (natMap_entries (messages s)) (messages s)
      in s\<lparr>messages := updatedMessages\<rparr>)"

text \<open>
  \<open>AccessControl.hasPermission(accessControlState, caller, #admin)\<close> belongs to the
  authorization module, which is not part of these sources: its answer for the caller is
  the argument \<open>hasPermission\<close>.
\<close>

definition cleanupInactiveUsers :: "int \<Rightarrow> bool \<Rightarrow> state \<Rightarrow> trap + state" where
  "cleanupInactiveUsers now hasPermission s =
     (if \<not> hasPermission then Inl Unauthorized
      else
        (let currentTime = now;
             updatedActiveUsers =
               fold (\<lambda>(chatroomId, users) updatedActiveUsers.
                       (let filteredUsers =
                              filter (\<lambda>user. nat \<bar>currentTime - u_lastActive user\<bar> \<le> activeThreshold)
                                users
                        in natMap_put updatedActiveUsers chatroomId filteredUsers))
                 (natMap_entries (activeUsers s)) (activeUsers s)
         in Inr (s\<lparr>activeUsers := updatedActiveUsers\<rparr>)))"

subsection \<open>Reactions\<close>

text \<open>
  \<open>addReaction\<close> folds the message's reactions from the left into a reversed list and a
  flag telling whether the emoji was met; \<open>addReactionStep\<close> is the function it folds
  with.
\<close>

definition addReactionStep ::
  "string \<Rightarrow> string \<Rightarrow> Reaction list \<times> bool \<Rightarrow> Reaction \<Rightarrow> Reaction list \<times> bool" where
  "addReactionStep emoji userId = (\<lambda>(acc, found) reaction.
     if r_emoji reaction = emoji then
       (let hasReacted = list_ex (\<lambda>user. user = userId) (r_users reaction) in
        if \<not> hasReacted then
          (let updatedReaction =
                 reaction\<lparr>r_count := r_count reaction + 1, r_users := userId # r_users reaction\<rparr>
           in (updatedReaction # acc, True))
        else (reaction # acc, True))
     else (reaction # acc, found))"

definition addReaction :: "nat \<Rightarrow> string \<Rightarrow> string \<Rightarrow> state \<Rightarrow> state" where
  "addReaction messageId emoji userId s =
     (let messageReactions =
            (case natMap_get (reactions s) messageId of
               None \<Rightarrow> []
             | Some existingReactions \<Rightarrow> existingReactions);
          (updatedReactions, found) =
            foldl (addReactionStep emoji userId) ([], False) messageReactions
      in if \<not> found then
           (let newReaction = \<lparr>r_emoji = emoji, r_count = 1, r_users = [userId]\<rparr>
            in s\<lparr>reactions := natMap_put (reactions s) messageId (newReaction # messageReactions)\<rparr>)
         else s\<lparr>reactions := natMap_put (reactions s) messageId (rev updatedReactions)\<rparr>)"

definition removeReaction :: "nat \<Rightarrow> string \<Rightarrow> string \<Rightarrow> state \<Rightarrow> state" where
  "removeReaction messageId emoji userId s =
     (let messageReactions =
            (case natMap_get (reactions s) messageId of
               None \<Rightarrow> []
             | Some existingReactions \<Rightarrow> existingReactions);
          updatedReactions =
            map (\<lambda>reaction.
                   if r_emoji reaction = emoji then
                     reaction\<lparr>r_count := (if r_count reaction > 0 then r_count reaction - 1 else 0),
                       r_users := filter (\<lambda>user. user \<noteq> userId) (r_users reaction)\<rparr>
                   else reaction)
              messageReactions
      in s\<lparr>reactions := natMap_put (reactions s) messageId updatedReactions\<rparr>)"

definition getReactions :: "nat \<Rightarrow> state \<Rightarrow> Reaction list" where
  "getReactions messageId s =
     (case natMap_get (reactions s) messageId of
        None \<Rightarrow> []
      | Some messageReactions \<Rightarrow> messageReactions)"

subsection \<open>Replies\<close>

definition getReplies :: "nat \<Rightarrow> nat \<Rightarrow> state \<Rightarrow> Message list" where
  "getReplies chatroomId parentMessageId s =
     (case natMap_get (messages s) chatroomId of
        None \<Rightarrow> []
      | Some chatroomMessages \<Rightarrow>
          (let replies =
                 filter (\<lambda>msg. case m_replyToMessageId msg of
                                  None \<Rightarrow> False
                                | Some replyId \<Rightarrow> replyId = parentMessageId)
                   chatroomMessages;
               reversedReplies = rev replies
           in reversedReplies))"

subsection \<open>Calls and runs\<close>

text \<open>
  The update calls of the actor that touch its six variables. A call that traps leaves
  the state as it was (the canister rolls a trapped message back). \<open>exec\<close> is one call at
  the time \<open>now\<close>, \<open>run\<close> a sequence of calls with their times.
\<close>

datatype call =
  CreateChatroom string string string string string
  | SendMessage string string nat "string option" "string option" "string option" string
      "nat option"
  | IncrementViewCount nat string
  | PinVideo nat nat
  | UnpinVideo nat
  | UpdateUsernameRetroactively string string
  | UpdateAvatarRetroactively string "string option"
  | CleanupInactiveUsers bool
  | AddReaction nat string string
  | RemoveReaction nat string string

definition commit :: "state \<Rightarrow> trap + state \<Rightarrow> state" where
  "commit s r = (case r of Inl t \<Rightarrow> s | Inr s' \<Rightarrow> s')"

fun exec :: "int \<Rightarrow> call \<Rightarrow> state \<Rightarrow> state" where
  "exec now (CreateChatroom topic description mediaUrl mediaType category) s =
     (case createChatroom now topic description mediaUrl mediaType category s of
        Inl t \<Rightarrow> s
      | Inr (i, s') \<Rightarrow> s')"
| "exec now (SendMessage content sender chatroomId mediaUrl mediaType avatarUrl senderId
       replyToMessageId) s =
     commit s (sendMessage now content sender chatroomId mediaUrl mediaType avatarUrl senderId
                 replyToMessageId s)"
| "exec now (IncrementViewCount chatroomId userId) s =
     commit s (incrementViewCount now chatroomId userId s)"
| "exec now (PinVideo chatroomId messageId) s = commit s (pinVideo chatroomId messageId s)"
| "exec now (UnpinVideo chatroomId) s = commit s (unpinVideo chatroomId s)"
| "exec now (UpdateUsernameRetroactively senderId newUsername) s =
     updateUsernameRetroactively senderId newUsername s"
| "exec now (UpdateAvatarRetroactively senderId newAvatarUrl) s =
     updateAvatarRetroactively senderId newAvatarUrl s"
| "exec now (CleanupInactiveUsers hasPermission) s =
     commit s (cleanupInactiveUsers now hasPermission s)"
| "exec now (AddReaction messageId emoji userId) s = addReaction messageId emoji userId s"
| "exec now (RemoveReaction messageId emoji userId) s = removeReaction messageId emoji userId s"

fun run :: "(int \<times> call) list \<Rightarrow> state \<Rightarrow> state" where
  "run [] s = s"
| "run ((now, c) # cs) s = run cs (exec now c s)"

inductive reachable :: "state \<Rightarrow> bool" where
  reachable_init: "reachable init"
| reachable_exec: "reachable s \<Longrightarrow> reachable (exec now c s)"

subsection \<open>Auxiliary notions for the statements\<close>

text \<open>
  What \<open>addReaction\<close> does to one stored reaction (\<open>react\<close>), and whether a list of reactions
  has an entry for an emoji (\<open>hasEmoji\<close>). They describe the fold of \<open>addReaction\<close>; lemma
  \<open>foldl_addReactionStep\<close> proves that the fold computes them.
\<close>

definition react :: "string \<Rightarrow> string \<Rightarrow> Reaction \<Rightarrow> Reaction" where
  "react emoji userId reaction =
     (if r_emoji reaction = emoji \<and> userId \<notin> set (r_users reaction)
      then reaction\<lparr>r_count := r_count reaction + 1, r_users := userId # r_users reaction\<rparr>
      else reaction)"

definition hasEmoji :: "string \<Rightarrow> Reaction list \<Rightarrow> bool" where
  "hasEmoji emoji rs = list_ex (\<lambda>reaction. r_emoji reaction = emoji) rs"

text \<open>
  The presence list \<open>getChatroom\<close> reads for a room (\<open>presence\<close>) and the test it filters
  that list with (\<open>withinWindow\<close>).
\<close>

definition presence :: "nat \<Rightarrow> state \<Rightarrow> ActiveUser list" where
  "presence chatroomId s =
     (case natMap_get (activeUsers s) chatroomId of None \<Rightarrow> [] | Some users \<Rightarrow> users)"

definition withinWindow :: "int \<Rightarrow> ActiveUser \<Rightarrow> bool" where
  "withinWindow now user = (nat \<bar>now - u_lastActive user\<bar> \<le> activeThreshold)"

text \<open>
  The ids a call hands out, read off what it returns and stores: the id \<open>createChatroom\<close>
  returns, the ids of the messages in the new room's log, and the id of the message
  \<open>sendMessage\<close> puts last in the room's chronological log. A call that traps hands out
  none. \<open>assignedChatroomIds\<close> and \<open>assignedMessageIds\<close> collect them along a run.
\<close>

definition newChatroomIds :: "int \<Rightarrow> call \<Rightarrow> state \<Rightarrow> nat list" where
  "newChatroomIds now c s =
     (case c of
        CreateChatroom topic description mediaUrl mediaType category \<Rightarrow>
          (case createChatroom now topic description mediaUrl mediaType category s of
             Inl t \<Rightarrow> []
           | Inr (i, s') \<Rightarrow> [i])
      | _ \<Rightarrow> [])"

definition newMessageIds :: "int \<Rightarrow> call \<Rightarrow> state \<Rightarrow> nat list" where
  "newMessageIds now c s =
     (case c of
        CreateChatroom topic description mediaUrl mediaType category \<Rightarrow>
          (case createChatroom now topic description mediaUrl mediaType category s of
             Inl t \<Rightarrow> []
           | Inr (i, s') \<Rightarrow> map m_id (getMessages i s'))
      | SendMessage content sender chatroomId mediaUrl mediaType avatarUrl senderId
          replyToMessageId \<Rightarrow>
          (case sendMessage now content sender chatroomId mediaUrl mediaType avatarUrl senderId
                  replyToMessageId s of
             Inl t \<Rightarrow> []
           | Inr s' \<Rightarrow> [m_id (last (getMessages chatroomId s'))])
      | _ \<Rightarrow> [])"

fun assignedChatroomIds :: "(int \<times> call) list \<Rightarrow> state \<Rightarrow> nat list" where
  "assignedChatroomIds [] s = []"
| "assignedChatroomIds ((now, c) # cs) s =
     newChatroomIds now c s @ assignedChatroomIds cs (exec now c s)"

fun assignedMessageIds :: "(int \<times> call) list \<Rightarrow> state \<Rightarrow> nat list" where
  "assignedMessageIds [] s = []"
| "assignedMessageIds ((now, c) # cs) s =
     newMessageIds now c s @ assignedMessageIds cs (exec now c s)"

section \<open>Properties\<close>

subsection \<open>The ordered map\<close>

lemma map_of_ins: "map_of (ins k v kvs) k' = (if k' = k then Some v else map_of kvs k')"
  by (induction kvs) auto

lemma ins_ins: "ins k v' (ins k v kvs) = ins k v' kvs"
  by (induction kvs) auto

lemma natMap_get_empty [simp]: "natMap_get natMap_empty k = None"
  by transfer simp

lemma natMap_get_put [simp]:
  "natMap_get (natMap_put m k v) k' = (if k' = k then Some v else natMap_get m k')"
  by transfer (rule map_of_ins)

lemma natMap_put_put [simp]: "natMap_put (natMap_put m k v) k v' = natMap_put m k v'"
  by transfer (rule ins_ins)

lemma natMap_entries_empty [simp]: "natMap_entries natMap_empty = []"
  by transfer simp

lemma natMap_entries_put [simp]:
  "natMap_entries (natMap_put m k v) = ins k v (natMap_entries m)"
  by transfer simp

lemma map_of_entries: "map_of (natMap_entries m) = natMap_get m"
  by transfer simp

lemma distinct_entries: "distinct (map fst (natMap_entries m))"
  by transfer (simp add: strict_sorted_iff)

subsection \<open>A media URL that validates\<close>

text \<open>The concrete runs below create their rooms with this URL and media type.\<close>

lemma validate_x: "validateMediaUrl ''x.com'' ''twitter''"
  by (simp add: validateMediaUrl_def isValidTwitterUrl_def toLowercase_def toLowercase_char_def)

subsection \<open>Reactions\<close>

lemma foldl_addReactionStep:
  "foldl (addReactionStep emoji userId) (acc, found) rs
     = (rev (map (react emoji userId) rs) @ acc, found \<or> hasEmoji emoji rs)"
  by (induction rs arbitrary: acc found)
     (auto simp: addReactionStep_def react_def hasEmoji_def list_ex_iff Let_def)

lemma reactions_addReaction:
  "natMap_get (reactions (addReaction messageId emoji userId s)) k =
     (if k = messageId then
        Some (if hasEmoji emoji (getReactions messageId s)
              then map (react emoji userId) (getReactions messageId s)
              else \<lparr>r_emoji = emoji, r_count = 1, r_users = [userId]\<rparr> # getReactions messageId s)
      else natMap_get (reactions s) k)"
  by (simp add: addReaction_def getReactions_def foldl_addReactionStep Let_def hasEmoji_def
      split: option.split)

lemma getReactions_addReaction:
  "getReactions messageId (addReaction messageId emoji userId s) =
     (if hasEmoji emoji (getReactions messageId s)
      then map (react emoji userId) (getReactions messageId s)
      else \<lparr>r_emoji = emoji, r_count = 1, r_users = [userId]\<rparr> # getReactions messageId s)"
  unfolding getReactions_def[of messageId "addReaction messageId emoji userId s"]
  by (simp add: reactions_addReaction)

lemma react_react: "react emoji userId (react emoji userId r) = react emoji userId r"
  by (simp add: react_def)

lemma hasEmoji_map_react: "hasEmoji emoji (map (react emoji userId) rs) = hasEmoji emoji rs"
  by (induction rs) (auto simp: hasEmoji_def react_def)

lemma map_react_fresh:
  "\<not> hasEmoji emoji rs \<Longrightarrow> map (react emoji userId) rs = rs"
  by (induction rs) (auto simp: hasEmoji_def react_def)

lemma addReaction_state:
  "addReaction messageId emoji userId s =
     s\<lparr>reactions := natMap_put (reactions s) messageId
        (if hasEmoji emoji (getReactions messageId s)
         then map (react emoji userId) (getReactions messageId s)
         else \<lparr>r_emoji = emoji, r_count = 1, r_users = [userId]\<rparr> # getReactions messageId s)\<rparr>"
  by (simp add: addReaction_def getReactions_def foldl_addReactionStep Let_def hasEmoji_def
      split: option.split)

text \<open>
  C5. \<open>addReaction\<close> is idempotent: from every state, and for every message id, emoji and
  identity, a second call right after the first leaves the state the first call left, so
  the emoji's count and its list of identities are those of the first call.
\<close>

theorem addReaction_idempotent:
  "addReaction messageId emoji userId (addReaction messageId emoji userId s)
     = addReaction messageId emoji userId s"
proof -
  define rs where "rs = getReactions messageId s"
  define rs1 where
    "rs1 = (if hasEmoji emoji rs then map (react emoji userId) rs
            else \<lparr>r_emoji = emoji, r_count = 1, r_users = [userId]\<rparr> # rs)"
  define s1 where "s1 = s\<lparr>reactions := natMap_put (reactions s) messageId rs1\<rparr>"
  have once: "addReaction messageId emoji userId s = s1"
    unfolding s1_def rs1_def rs_def by (rule addReaction_state)
  have get1: "getReactions messageId s1 = rs1"
    by (simp add: s1_def getReactions_def)
  have has: "hasEmoji emoji rs1"
    by (simp add: rs1_def hasEmoji_map_react) (simp add: hasEmoji_def)
  have stable: "map (react emoji userId) rs1 = rs1"
    by (simp add: rs1_def react_react map_react_fresh) (simp add: react_def)
  have "addReaction messageId emoji userId s1
          = s1\<lparr>reactions := natMap_put (reactions s1) messageId rs1\<rparr>"
    by (subst addReaction_state) (simp add: get1 has stable)
  also have "\<dots> = s1"
    by (simp add: s1_def)
  finally show ?thesis by (simp add: once)
qed

text \<open>
  The theorem from the initial state: after two calls for the same message, emoji and
  identity the entry has count 1 and lists the identity once.
\<close>

theorem addReaction_idempotent_witness:
  "getReactions 0 (addReaction 0 ''a'' ''u'' (addReaction 0 ''a'' ''u'' init))
     = [\<lparr>r_emoji = ''a'', r_count = 1, r_users = [''u'']\<rparr>]"
  using addReaction_idempotent[of 0 "''a''" "''u''" init]
  by (simp add: getReactions_def addReaction_def init_def addReactionStep_def)


text \<open>
  C1 (the code departs from it). \<open>getReactions\<close> is to return no entry whose set of
  reacting identities is empty. \<open>removeReaction\<close> rewrites the entry of the emoji in place
  and never drops it, and \<open>getReactions\<close> returns the stored list unfiltered: after one
  identity adds a reaction and removes it again, the entry is returned with count 0 and
  no identity.
\<close>

theorem removeReaction_keeps_empty_entry:
  "getReactions 0 (run [(0, AddReaction 0 ''a'' ''u''), (1, RemoveReaction 0 ''a'' ''u'')] init)
     = [\<lparr>r_emoji = ''a'', r_count = 0, r_users = []\<rparr>]"
  by (simp add: getReactions_def removeReaction_def addReaction_def init_def addReactionStep_def)

text \<open>
  C2 (the code departs from it). The stored count of a reaction is to equal the number of
  its identities in every reachable state, also after \<open>removeReaction\<close> for an identity
  that never reacted. \<open>removeReaction\<close> lowers the count of the emoji's entry whether or
  not the identity is in its list: after \<open>u\<close> reacts and \<open>v\<close>, who never did, removes, the
  entry has count 0 and still lists \<open>u\<close>.
\<close>

theorem removeReaction_count_drift:
  "getReactions 0 (run [(0, AddReaction 0 ''a'' ''u''), (1, RemoveReaction 0 ''a'' ''v'')] init)
     = [\<lparr>r_emoji = ''a'', r_count = 0, r_users = [''u'']\<rparr>]"
  by (simp add: getReactions_def removeReaction_def addReaction_def init_def addReactionStep_def)

text \<open>
  \<open>addReaction\<close>, for its part, keeps both properties: where every entry of the message
  has a count equal to the length of its duplicate-free list of identities, or a
  non-empty list, so has every entry after the call.
\<close>

lemma addReaction_keeps_count:
  "list_all (\<lambda>reaction. r_count reaction = length (r_users reaction)
                          \<and> distinct (r_users reaction)) (getReactions messageId s) \<Longrightarrow>
   list_all (\<lambda>reaction. r_count reaction = length (r_users reaction)
                          \<and> distinct (r_users reaction))
     (getReactions messageId (addReaction messageId emoji userId s))"
  by (auto simp: getReactions_addReaction react_def list_all_iff)

lemma addReaction_keeps_nonempty:
  "list_all (\<lambda>reaction. r_users reaction \<noteq> []) (getReactions messageId s) \<Longrightarrow>
   list_all (\<lambda>reaction. r_users reaction \<noteq> [])
     (getReactions messageId (addReaction messageId emoji userId s))"
  by (auto simp: getReactions_addReaction react_def list_all_iff)






subsection \<open>Sending a message\<close>

text \<open>
  C4. \<open>sendMessage\<close> traps exactly when the content is empty or the chatroom id is not a
  key of \<open>chatrooms\<close>, and the trapped call leaves the whole state as it was (no message,
  no count, no presence changed). When it returns, the content is not empty and the room
  exists, the message is the last of the room's log in chronological order, the room's
  \<open>messageCount\<close> is one more, and the room's presence list starts with the sender's
  fresh record (time \<open>now\<close>) followed by the other identities' records.
\<close>

theorem sendMessage_all_or_nothing:
  "isl (sendMessage now content sender chatroomId mediaUrl mediaType avatarUrl senderId
          replyToMessageId s)
     = (content = [] \<or> natMap_get (chatrooms s) chatroomId = None)
   \<and> (case sendMessage now content sender chatroomId mediaUrl mediaType avatarUrl senderId
           replyToMessageId s of
      Inl t \<Rightarrow>
        exec now (SendMessage content sender chatroomId mediaUrl mediaType avatarUrl senderId
              replyToMessageId) s = s
    | Inr s' \<Rightarrow>
        (\<exists>chatroom. natMap_get (chatrooms s) chatroomId = Some chatroom
              \<and> natMap_get (chatrooms s') chatroomId
                  = Some (chatroom\<lparr>c_messageCount := c_messageCount chatroom + 1\<rparr>))
        \<and> getMessages chatroomId s'
            = getMessages chatroomId s
              @ [newMessage now content sender chatroomId mediaUrl mediaType avatarUrl senderId
                   replyToMessageId s]
        \<and> natMap_get (activeUsers s') chatroomId
            = Some (\<lparr>u_userId = senderId, u_lastActive = now\<rparr>
                    # filter (\<lambda>user. u_userId user \<noteq> senderId)
                        (case natMap_get (activeUsers s) chatroomId of
                           None \<Rightarrow> [] | Some users \<Rightarrow> users))
        \<and> exec now (SendMessage content sender chatroomId mediaUrl mediaType avatarUrl senderId
              replyToMessageId) s = s')"
  by (auto simp: sendMessage_def getMessages_def commit_def Let_def split: option.splits)

text \<open>
  The theorem on a state with the single room 0: an empty content and the unknown room 7
  trap, and a message to room 0 is stored after the seed message.
\<close>

theorem sendMessage_all_or_nothing_witness:
  "isl (sendMessage 1 '''' ''Alice'' 0 None None None ''u1'' None
          (run [(0, CreateChatroom ''t'' ''d'' ''x.com'' ''twitter'' ''c'')] init))
   \<and> isl (sendMessage 1 ''hi'' ''Alice'' 7 None None None ''u1'' None
          (run [(0, CreateChatroom ''t'' ''d'' ''x.com'' ''twitter'' ''c'')] init))
   \<and> \<not> isl (sendMessage 1 ''hi'' ''Alice'' 0 None None None ''u1'' None
          (run [(0, CreateChatroom ''t'' ''d'' ''x.com'' ''twitter'' ''c'')] init))
   \<and> map m_content
        (getMessages 0
           (exec 1 (SendMessage ''hi'' ''Alice'' 0 None None None ''u1'' None)
              (run [(0, CreateChatroom ''t'' ''d'' ''x.com'' ''twitter'' ''c'')] init)))
       = [''Media content posted by creator'', ''hi'']"
proof -
  let ?s = "run [(0, CreateChatroom ''t'' ''d'' ''x.com'' ''twitter'' ''c'')] init"
  have room: "natMap_get (chatrooms ?s) 0 \<noteq> None" "natMap_get (chatrooms ?s) 7 = None"
    by (simp_all add: createChatroom_def validate_x Let_def init_def)
  have log: "map m_content (getMessages 0 ?s) = [''Media content posted by creator'']"
    by (simp add: createChatroom_def validate_x Let_def init_def firstMessage_def
         getMessages_def)
  have a: "isl (sendMessage 1 '''' ''Alice'' 0 None None None ''u1'' None ?s)"
    using sendMessage_all_or_nothing[of 1 "''''" "''Alice''" 0 None None None "''u1''" None ?s]
    by simp
  have b: "isl (sendMessage 1 ''hi'' ''Alice'' 7 None None None ''u1'' None ?s)"
    using sendMessage_all_or_nothing[of 1 "''hi''" "''Alice''" 7 None None None "''u1''" None ?s]
      room(2)
    by simp
  have c: "\<not> isl (sendMessage 1 ''hi'' ''Alice'' 0 None None None ''u1'' None ?s)"
    using sendMessage_all_or_nothing[of 1 "''hi''" "''Alice''" 0 None None None "''u1''" None ?s]
      room(1)
    by simp
  then obtain s' where
    s': "sendMessage 1 ''hi'' ''Alice'' 0 None None None ''u1'' None ?s = Inr s'"
    by (cases "sendMessage 1 ''hi'' ''Alice'' 0 None None None ''u1'' None ?s") auto
  have d: "map m_content
        (getMessages 0 (exec 1 (SendMessage ''hi'' ''Alice'' 0 None None None ''u1'' None) ?s))
       = [''Media content posted by creator'', ''hi'']"
    using sendMessage_all_or_nothing[of 1 "''hi''" "''Alice''" 0 None None None "''u1''" None ?s]
      s' log
    by (simp add: newMessage_def)
  show ?thesis using a b c d by blast
qed

subsection \<open>Retroactive rewrites\<close>

lemma fold_put_get:
  "distinct (map fst kvs) \<Longrightarrow>
   natMap_get (fold (\<lambda>(k, v) acc. natMap_put acc k (f v)) kvs acc) k' =
     (case map_of kvs k' of None \<Rightarrow> natMap_get acc k' | Some v \<Rightarrow> Some (f v))"
proof (induction kvs arbitrary: acc)
  case Nil
  then show ?case by simp
next
  case (Cons kv kvs)
  obtain k v where kv: "kv = (k, v)" by (cases kv)
  from Cons.prems kv have fresh: "map_of kvs k = None" and dist: "distinct (map fst kvs)"
    by (auto simp: map_of_eq_None_iff)
  show ?case
    using Cons.IH[OF dist, of "natMap_put acc k (f v)"] fresh kv
    by (auto split: option.splits)
qed

lemma natMap_rewrite_all:
  "natMap_get (fold (\<lambda>(k, v) acc. natMap_put acc k (f v)) (natMap_entries m) m) k'
     = map_option f (natMap_get m k')"
  by (simp add: fold_put_get distinct_entries map_of_entries split: option.split)

lemma messages_updateUsernameRetroactively:
  "natMap_get (messages (updateUsernameRetroactively senderId newUsername s)) chatroomId =
     map_option
       (map (\<lambda>message. if m_senderId message = senderId
                         then message\<lparr>m_sender := newUsername\<rparr> else message))
       (natMap_get (messages s) chatroomId)"
  by (simp add: updateUsernameRetroactively_def Let_def natMap_rewrite_all)

lemma messages_updateAvatarRetroactively:
  "natMap_get (messages (updateAvatarRetroactively senderId newAvatarUrl s)) chatroomId =
     map_option
       (map (\<lambda>message. if m_senderId message = senderId
                         then message\<lparr>m_avatarUrl := newAvatarUrl\<rparr> else message))
       (natMap_get (messages s) chatroomId)"
  by (simp add: updateAvatarRetroactively_def Let_def natMap_rewrite_all)

lemma getMessages_updateUsernameRetroactively:
  "getMessages chatroomId (updateUsernameRetroactively senderId newUsername s) =
     map (\<lambda>message. if m_senderId message = senderId
                      then message\<lparr>m_sender := newUsername\<rparr> else message)
       (getMessages chatroomId s)"
  by (simp add: getMessages_def messages_updateUsernameRetroactively rev_map split: option.split)

text \<open>
  C6. After \<open>updateUsernameRetroactively\<close>, in every room, every stored message whose
  \<open>senderId\<close> is the given identity has the new name as its \<open>sender\<close>; the messages of
  the other identities are the same records as before, in the same order; and nothing
  else of a message changes: the log is the old log with \<open>sender\<close> replaced in the
  identity's messages (the sender ids themselves stay as they were).
\<close>

theorem updateUsernameRetroactively_complete:
  "list_all (\<lambda>message. m_senderId message = senderId \<longrightarrow> m_sender message = newUsername)
     (getMessages chatroomId (updateUsernameRetroactively senderId newUsername s))
   \<and> map m_senderId (getMessages chatroomId (updateUsernameRetroactively senderId newUsername s))
       = map m_senderId (getMessages chatroomId s)
   \<and> filter (\<lambda>message. m_senderId message \<noteq> senderId)
         (getMessages chatroomId (updateUsernameRetroactively senderId newUsername s))
       = filter (\<lambda>message. m_senderId message \<noteq> senderId) (getMessages chatroomId s)
   \<and> getMessages chatroomId (updateUsernameRetroactively senderId newUsername s)
       = map (\<lambda>message. if m_senderId message = senderId
                        then message\<lparr>m_sender := newUsername\<rparr> else message)
           (getMessages chatroomId s)"
proof -
  let ?f = "\<lambda>message. if m_senderId message = senderId
                        then message\<lparr>m_sender := newUsername\<rparr> else message"
  have a: "list_all (\<lambda>message. m_senderId message = senderId \<longrightarrow> m_sender message = newUsername)
             (map ?f ms)" for ms :: "Message list"
    by (induction ms) auto
  have b: "map m_senderId (map ?f ms) = map m_senderId ms" for ms :: "Message list"
    by (induction ms) auto
  have c: "filter (\<lambda>message. m_senderId message \<noteq> senderId) (map ?f ms)
             = filter (\<lambda>message. m_senderId message \<noteq> senderId) ms" for ms :: "Message list"
    by (induction ms) auto
  show ?thesis
    unfolding getMessages_updateUsernameRetroactively using a b c by blast
qed

text \<open>
  The theorem on a room with the seed message, a message of \<open>u1\<close> and a message of \<open>u2\<close>:
  renaming \<open>u1\<close> to Bob changes the sender of the second message only.
\<close>

theorem updateUsernameRetroactively_complete_witness:
  "map m_sender
     (getMessages 0
        (updateUsernameRetroactively ''u1'' ''Bob''
           (run [(0, CreateChatroom ''t'' ''d'' ''x.com'' ''twitter'' ''c''),
                 (1, SendMessage ''hi'' ''Alice'' 0 None None None ''u1'' None),
                 (2, SendMessage ''yo'' ''Carol'' 0 None None None ''u2'' (Some 1))] init)))
     = [''Creator'', ''Bob'', ''Carol'']"
  using updateUsernameRetroactively_complete
    [of "''u1''" "''Bob''" 0
        "run [(0, CreateChatroom ''t'' ''d'' ''x.com'' ''twitter'' ''c''),
              (1, SendMessage ''hi'' ''Alice'' 0 None None None ''u1'' None),
              (2, SendMessage ''yo'' ''Carol'' 0 None None None ''u2'' (Some 1))] init"]
  by (simp add: createChatroom_def validate_x Let_def init_def firstMessage_def
       sendMessage_def newMessage_def commit_def getMessages_def)



subsection \<open>Liveness\<close>

lemma getChatroom_Some:
  "natMap_get (chatrooms s) ident = Some chatroom \<Longrightarrow>
   \<exists>view. getChatroom now ident s = Some view
     \<and> activeUserCount view = length (filter (withinWindow now) (presence ident s))
     \<and> isLive view = list_ex (withinWindow now) (presence ident s)
     \<and> c_messageCount view = c_messageCount chatroom"
proof -
  have w: "withinWindow now = (\<lambda>user. nat \<bar>now - u_lastActive user\<bar> \<le> activeThreshold)"
    by (rule ext) (simp add: withinWindow_def)
  assume "natMap_get (chatrooms s) ident = Some chatroom"
  then show ?thesis
    by (simp add: getChatroom_def Let_def presence_def w list_ex_iff filter_empty_conv
          split: option.splits)
qed

lemma withinWindow_abs:
  "withinWindow now user = (\<bar>now - u_lastActive user\<bar> \<le> 60 * 1000000000)"
  by (simp add: withinWindow_def activeThreshold_def) linarith

text \<open>
  C7, amended. For every room with a presence record for some identity whose
  \<open>lastActive\<close> is \<open>t0\<close>, \<open>getChatroom\<close> at time \<open>now\<close> counts that record in
  \<open>activeUserCount\<close> exactly when \<open>|now - t0| \<le> 60\<close> seconds (\<open>60 * 10^9\<close> in the nanoseconds
  of \<open>Time.now()\<close>), and \<open>isLive\<close> is true exactly when some presence record of the room is
  within that window. So the room is live whenever \<open>|now - t0| \<le> 60\<close> seconds, and when
  the record is the room's only one the room is live exactly then and not live when
  \<open>|now - t0| > 60\<close> seconds. The comparison is on the absolute difference: a
  future-dated \<open>lastActive\<close> within 60 seconds counts.
\<close>

theorem getChatroom_liveness:
  assumes room: "natMap_get (chatrooms s) ident = Some chatroom"
      and rec: "user \<in> set (presence ident s)"
      and t0: "u_lastActive user = t0"
  shows "\<exists>view. getChatroom now ident s = Some view
     \<and> activeUserCount view = length (filter (withinWindow now) (presence ident s))
     \<and> isLive view = list_ex (withinWindow now) (presence ident s)
     \<and> (user \<in> set (filter (withinWindow now) (presence ident s)))
         = (\<bar>now - t0\<bar> \<le> 60 * 1000000000)
     \<and> (\<bar>now - t0\<bar> \<le> 60 * 1000000000 \<longrightarrow> isLive view \<and> 0 < activeUserCount view)
     \<and> (presence ident s = [user] \<longrightarrow>
           isLive view = (\<bar>now - t0\<bar> \<le> 60 * 1000000000)
           \<and> activeUserCount view = (if \<bar>now - t0\<bar> \<le> 60 * 1000000000 then 1 else 0))"
proof -
  from getChatroom_Some[OF room, of now] obtain view where
    v: "getChatroom now ident s = Some view"
       "activeUserCount view = length (filter (withinWindow now) (presence ident s))"
       "isLive view = list_ex (withinWindow now) (presence ident s)"
    by blast
  have w: "withinWindow now user = (\<bar>now - t0\<bar> \<le> 60 * 1000000000)"
    using t0 by (simp add: withinWindow_abs)
  have counted: "(user \<in> set (filter (withinWindow now) (presence ident s)))
         = (\<bar>now - t0\<bar> \<le> 60 * 1000000000)"
    using rec w by simp
  have live: "\<bar>now - t0\<bar> \<le> 60 * 1000000000 \<Longrightarrow> isLive view \<and> 0 < activeUserCount view"
  proof -
    assume "\<bar>now - t0\<bar> \<le> 60 * 1000000000"
    with counted have "user \<in> set (filter (withinWindow now) (presence ident s))" by simp
    then show ?thesis using v(2,3) rec w by (auto simp: list_ex_iff length_greater_0_conv filter_empty_conv simp del: length_greater_0_conv)
  qed
  have sole: "presence ident s = [user] \<Longrightarrow>
           isLive view = (\<bar>now - t0\<bar> \<le> 60 * 1000000000)
           \<and> activeUserCount view = (if \<bar>now - t0\<bar> \<le> 60 * 1000000000 then 1 else 0)"
    using v(2,3) w by simp
  show ?thesis using v counted live sole by blast
qed


text \<open>
  C7 as stated fails where it says the room is not live when \<open>|now - t0| > 60\<close> seconds:
  the room is live as long as any identity's record is within the window. Here \<open>u1\<close>
  was last active at 0 and \<open>u2\<close> at 100 seconds; at 100 seconds the record of \<open>u1\<close> is
  100 seconds old and the room is reported live.
\<close>

theorem getChatroom_live_by_other_identity:
  "presence 0
     (run [(0, CreateChatroom ''t'' ''d'' ''x.com'' ''twitter'' ''c''),
           (0, IncrementViewCount 0 ''u1''),
           (100000000000, IncrementViewCount 0 ''u2'')] init)
     = [\<lparr>u_userId = ''u2'', u_lastActive = 100000000000\<rparr>,
        \<lparr>u_userId = ''u1'', u_lastActive = 0\<rparr>]
   \<and> map_option isLive
       (getChatroom 100000000000 0
          (run [(0, CreateChatroom ''t'' ''d'' ''x.com'' ''twitter'' ''c''),
                (0, IncrementViewCount 0 ''u1''),
                (100000000000, IncrementViewCount 0 ''u2'')] init))
     = Some True"
  by (simp add: createChatroom_def validate_x Let_def init_def firstMessage_def
       incrementViewCount_def commit_def presence_def getChatroom_def activeThreshold_def)

text \<open>
  The theorem at a room whose only record is dated 30 seconds: queried at 0 (the record
  lies in the future, within the window) the room is live; queried at 90 seconds and
  one nanosecond it is not.
\<close>

theorem getChatroom_liveness_witness:
  "natMap_get
     (chatrooms (run [(0, CreateChatroom ''t'' ''d'' ''x.com'' ''twitter'' ''c''),
                      (30000000000, IncrementViewCount 0 ''u1'')] init)) 0
     = Some \<lparr>c_id = 0, c_topic = ''t'', c_description = ''d'', c_mediaUrl = ''x.com'',
              c_mediaType = ''twitter'', c_createdAt = 0, c_messageCount = 1, c_viewCount = 1,
              c_pinnedVideoId = None, c_category = ''c''\<rparr>
   \<and> \<lparr>u_userId = ''u1'', u_lastActive = 30000000000\<rparr>
       \<in> set (presence 0 (run [(0, CreateChatroom ''t'' ''d'' ''x.com'' ''twitter'' ''c''),
                                (30000000000, IncrementViewCount 0 ''u1'')] init))
   \<and> map_option isLive
         (getChatroom 0 0 (run [(0, CreateChatroom ''t'' ''d'' ''x.com'' ''twitter'' ''c''),
                                (30000000000, IncrementViewCount 0 ''u1'')] init))
       = Some True
   \<and> map_option isLive
         (getChatroom 90000000001 0
            (run [(0, CreateChatroom ''t'' ''d'' ''x.com'' ''twitter'' ''c''),
                  (30000000000, IncrementViewCount 0 ''u1'')] init))
       = Some False"
proof -
  let ?s = "run [(0, CreateChatroom ''t'' ''d'' ''x.com'' ''twitter'' ''c''),
                 (30000000000, IncrementViewCount 0 ''u1'')] init"
  let ?c = "\<lparr>c_id = 0, c_topic = ''t'', c_description = ''d'', c_mediaUrl = ''x.com'',
              c_mediaType = ''twitter'', c_createdAt = 0, c_messageCount = 1, c_viewCount = 1,
              c_pinnedVideoId = None, c_category = ''c''\<rparr>"
  let ?u = "\<lparr>u_userId = ''u1'', u_lastActive = 30000000000\<rparr>"
  have room: "natMap_get (chatrooms ?s) 0 = Some ?c"
    by (simp add: createChatroom_def validate_x Let_def init_def firstMessage_def
         incrementViewCount_def commit_def)
  have pres: "presence 0 ?s = [?u]"
    by (simp add: createChatroom_def validate_x Let_def init_def firstMessage_def
         incrementViewCount_def commit_def presence_def)
  have rec: "?u \<in> set (presence 0 ?s)"
    unfolding pres by simp
  have t0: "u_lastActive ?u = 30000000000"
    by simp
  from getChatroom_liveness[OF room rec t0, of 0]
  have early: "map_option isLive (getChatroom 0 0 ?s) = Some True"
    by auto
  from getChatroom_liveness[OF room rec t0, of 90000000001] pres
  have late: "map_option isLive (getChatroom 90000000001 0 ?s) = Some False"
    by auto
  show ?thesis using room rec early late by blast
qed

subsection \<open>The id counters\<close>

lemma createChatroom_Inr:
  "createChatroom now topic description mediaUrl mediaType category s = Inr (i, s') \<Longrightarrow>
     i = nextChatroomId s
     \<and> nextChatroomId s' = nextChatroomId s + 1
     \<and> nextMessageId s' = nextMessageId s + 1
     \<and> getMessages i s' = [firstMessage now mediaUrl mediaType s]
     \<and> natMap_get (chatrooms s') i
         = Some \<lparr>c_id = i, c_topic = topic, c_description = description, c_mediaUrl = mediaUrl,
             c_mediaType = mediaType, c_createdAt = now, c_messageCount = 1, c_viewCount = 0,
             c_pinnedVideoId = None, c_category = category\<rparr>"
  by (auto simp: createChatroom_def Let_def getMessages_def firstMessage_def split: if_splits)

lemma sendMessage_Inr:
  "sendMessage now content sender chatroomId mediaUrl mediaType avatarUrl senderId
       replyToMessageId s = Inr s' \<Longrightarrow>
     nextChatroomId s' = nextChatroomId s
     \<and> nextMessageId s' = nextMessageId s + 1
     \<and> getMessages chatroomId s'
         = getMessages chatroomId s
           @ [newMessage now content sender chatroomId mediaUrl mediaType avatarUrl senderId
                replyToMessageId s]"
  by (auto simp: sendMessage_def Let_def getMessages_def split: if_splits option.splits)

lemma newChatroomIds_upt:
  "newChatroomIds now c s = [nextChatroomId s ..< nextChatroomId (exec now c s)]"
proof (cases c)
  case (CreateChatroom topic description mediaUrl mediaType category)
  then show ?thesis
    by (auto simp: newChatroomIds_def dest!: createChatroom_Inr split: sum.splits)
next
  case SendMessage
  then show ?thesis
    by (auto simp: newChatroomIds_def commit_def dest!: sendMessage_Inr split: sum.splits)
qed (auto simp: newChatroomIds_def commit_def incrementViewCount_def pinVideo_def unpinVideo_def
       updateUsernameRetroactively_def updateAvatarRetroactively_def cleanupInactiveUsers_def
       addReaction_def removeReaction_def Let_def split: option.splits prod.splits)

lemma newMessageIds_upt:
  "newMessageIds now c s = [nextMessageId s ..< nextMessageId (exec now c s)]"
proof (cases c)
  case (CreateChatroom topic description mediaUrl mediaType category)
  then show ?thesis
    by (auto simp: newMessageIds_def firstMessage_def dest!: createChatroom_Inr split: sum.splits)
next
  case SendMessage
  then show ?thesis
    by (auto simp: newMessageIds_def commit_def newMessage_def dest!: sendMessage_Inr
          split: sum.splits)
qed (auto simp: newMessageIds_def commit_def incrementViewCount_def pinVideo_def unpinVideo_def
       updateUsernameRetroactively_def updateAvatarRetroactively_def cleanupInactiveUsers_def
       addReaction_def removeReaction_def Let_def split: option.splits prod.splits)

lemma nextChatroomId_exec: "nextChatroomId s \<le> nextChatroomId (exec now c s)"
  using newChatroomIds_upt[of now c s]
  by (cases c)
     (auto simp: newChatroomIds_def commit_def incrementViewCount_def pinVideo_def unpinVideo_def
       updateUsernameRetroactively_def updateAvatarRetroactively_def cleanupInactiveUsers_def
       addReaction_def removeReaction_def Let_def
       dest!: createChatroom_Inr sendMessage_Inr split: option.splits prod.splits sum.splits)

lemma nextMessageId_exec: "nextMessageId s \<le> nextMessageId (exec now c s)"
  by (cases c)
     (auto simp: commit_def incrementViewCount_def pinVideo_def unpinVideo_def
       updateUsernameRetroactively_def updateAvatarRetroactively_def cleanupInactiveUsers_def
       addReaction_def removeReaction_def Let_def
       dest!: createChatroom_Inr sendMessage_Inr split: option.splits prod.splits sum.splits)

lemma nextChatroomId_run: "nextChatroomId s \<le> nextChatroomId (run cs s)"
proof (induction cs arbitrary: s)
  case Nil
  then show ?case by simp
next
  case (Cons nc cs)
  obtain now c where nc: "nc = (now, c)" by (cases nc)
  show ?case
    using Cons.IH[of "exec now c s"] nextChatroomId_exec[of s now c] nc by simp
qed

lemma nextMessageId_run: "nextMessageId s \<le> nextMessageId (run cs s)"
proof (induction cs arbitrary: s)
  case Nil
  then show ?case by simp
next
  case (Cons nc cs)
  obtain now c where nc: "nc = (now, c)" by (cases nc)
  show ?case
    using Cons.IH[of "exec now c s"] nextMessageId_exec[of s now c] nc by simp
qed

lemma assignedChatroomIds_upt:
  "assignedChatroomIds cs s = [nextChatroomId s ..< nextChatroomId (run cs s)]"
proof (induction cs arbitrary: s)
  case Nil
  then show ?case by simp
next
  case (Cons nc cs)
  obtain now c where nc: "nc = (now, c)" by (cases nc)
  have "[nextChatroomId s ..< nextChatroomId (exec now c s)]
          @ [nextChatroomId (exec now c s) ..< nextChatroomId (run cs (exec now c s))]
        = [nextChatroomId s ..< nextChatroomId (run cs (exec now c s))]"
    using nextChatroomId_exec[of s now c] nextChatroomId_run[of "exec now c s" cs]
    by (metis le_Suc_ex upt_add_eq_append)
  then show ?case
    using Cons.IH[of "exec now c s"] nc by (simp add: newChatroomIds_upt)
qed

lemma assignedMessageIds_upt:
  "assignedMessageIds cs s = [nextMessageId s ..< nextMessageId (run cs s)]"
proof (induction cs arbitrary: s)
  case Nil
  then show ?case by simp
next
  case (Cons nc cs)
  obtain now c where nc: "nc = (now, c)" by (cases nc)
  have "[nextMessageId s ..< nextMessageId (exec now c s)]
          @ [nextMessageId (exec now c s) ..< nextMessageId (run cs (exec now c s))]
        = [nextMessageId s ..< nextMessageId (run cs (exec now c s))]"
    using nextMessageId_exec[of s now c] nextMessageId_run[of "exec now c s" cs]
    by (metis le_Suc_ex upt_add_eq_append)
  then show ?case
    using Cons.IH[of "exec now c s"] nc by (simp add: newMessageIds_upt)
qed

text \<open>
  C8. Along every sequence of calls, from every state, the chatroom ids handed out are
  strictly increasing and none is handed out twice, and so are the message ids (the seed
  messages' among them, across all rooms): they are the consecutive values of the two
  counters, from their value at the start to their value at the end.
\<close>

theorem assigned_ids_strictly_increasing:
  "sorted_wrt (<) (assignedChatroomIds cs s) \<and> distinct (assignedChatroomIds cs s)
   \<and> sorted_wrt (<) (assignedMessageIds cs s) \<and> distinct (assignedMessageIds cs s)
   \<and> assignedChatroomIds cs s = [nextChatroomId s ..< nextChatroomId (run cs s)]
   \<and> assignedMessageIds cs s = [nextMessageId s ..< nextMessageId (run cs s)]"
  by (simp add: assignedChatroomIds_upt assignedMessageIds_upt strict_sorted_iff[symmetric])


lemma reachable_run: "reachable s \<Longrightarrow> reachable (run cs s)"
proof (induction cs arbitrary: s)
  case Nil
  then show ?case by simp
next
  case (Cons nc cs)
  obtain now c where nc: "nc = (now, c)" by (cases nc)
  from Cons.prems have "reachable (exec now c s)" by (rule reachable_exec)
  then show ?case using Cons.IH nc by simp
qed

text \<open>
  The theorem on a run of two rooms and two messages with a rejected \<open>createChatroom\<close> in
  between: the rooms get 0 and 1, the messages 0 to 3, and the rejected call uses up no
  id.
\<close>

theorem assigned_ids_strictly_increasing_witness:
  "assignedChatroomIds
     [(0, CreateChatroom ''t'' ''d'' ''x.com'' ''twitter'' ''c''),
      (1, SendMessage ''hi'' ''Alice'' 0 None None None ''u1'' None),
      (2, CreateChatroom ''t'' ''d'' ''nowhere'' ''twitter'' ''c''),
      (3, CreateChatroom ''t'' ''d'' ''x.com'' ''twitter'' ''c''),
      (4, SendMessage ''yo'' ''Carol'' 1 None None None ''u2'' None)] init = [0, 1]
   \<and> assignedMessageIds
     [(0, CreateChatroom ''t'' ''d'' ''x.com'' ''twitter'' ''c''),
      (1, SendMessage ''hi'' ''Alice'' 0 None None None ''u1'' None),
      (2, CreateChatroom ''t'' ''d'' ''nowhere'' ''twitter'' ''c''),
      (3, CreateChatroom ''t'' ''d'' ''x.com'' ''twitter'' ''c''),
      (4, SendMessage ''yo'' ''Carol'' 1 None None None ''u2'' None)] init = [0, 1, 2, 3]"
proof -
  have bad: "\<not> validateMediaUrl ''nowhere'' ''twitter''"
    by (simp add: validateMediaUrl_def isValidTwitterUrl_def toLowercase_def
         toLowercase_char_def)
  show ?thesis
    using assigned_ids_strictly_increasing
      [of "[(0, CreateChatroom ''t'' ''d'' ''x.com'' ''twitter'' ''c''),
            (1, SendMessage ''hi'' ''Alice'' 0 None None None ''u1'' None),
            (2, CreateChatroom ''t'' ''d'' ''nowhere'' ''twitter'' ''c''),
            (3, CreateChatroom ''t'' ''d'' ''x.com'' ''twitter'' ''c''),
            (4, SendMessage ''yo'' ''Carol'' 1 None None None ''u2'' None)]" init]
    by (simp add: createChatroom_def validate_x bad Let_def init_def firstMessage_def
         sendMessage_def newMessage_def commit_def upt_rec)
qed

subsection \<open>Replies and the message logs of reachable states\<close>

lemma getReplies_filter:
  "getReplies chatroomId parentMessageId s
     = filter (\<lambda>msg. m_replyToMessageId msg = Some parentMessageId) (getMessages chatroomId s)"
proof -
  have "(\<lambda>msg. case m_replyToMessageId msg of None \<Rightarrow> False
                | Some replyId \<Rightarrow> replyId = parentMessageId)
        = (\<lambda>msg :: Message. m_replyToMessageId msg = Some parentMessageId)"
    by (rule ext) (simp split: option.split)
  then show ?thesis
    by (simp add: getReplies_def getMessages_def Let_def rev_filter split: option.split)
qed

lemma getMessages_updateAvatarRetroactively:
  "getMessages chatroomId (updateAvatarRetroactively senderId newAvatarUrl s) =
     map (\<lambda>message. if m_senderId message = senderId
                      then message\<lparr>m_avatarUrl := newAvatarUrl\<rparr> else message)
       (getMessages chatroomId s)"
  by (simp add: getMessages_def messages_updateAvatarRetroactively rev_map split: option.split)

lemma getMessages_exec:
  "getMessages k (exec now c s) =
     (case c of
        CreateChatroom topic description mediaUrl mediaType category \<Rightarrow>
          (if isl (createChatroom now topic description mediaUrl mediaType category s)
              \<or> k \<noteq> nextChatroomId s
           then getMessages k s
           else [firstMessage now mediaUrl mediaType s])
      | SendMessage content sender chatroomId mediaUrl mediaType avatarUrl senderId
          replyToMessageId \<Rightarrow>
          (if isl (sendMessage now content sender chatroomId mediaUrl mediaType avatarUrl
                     senderId replyToMessageId s) \<or> k \<noteq> chatroomId
           then getMessages k s
           else getMessages k s
                  @ [newMessage now content sender chatroomId mediaUrl mediaType avatarUrl
                       senderId replyToMessageId s])
      | UpdateUsernameRetroactively senderId newUsername \<Rightarrow>
          map (\<lambda>message. if m_senderId message = senderId
                           then message\<lparr>m_sender := newUsername\<rparr> else message)
            (getMessages k s)
      | UpdateAvatarRetroactively senderId newAvatarUrl \<Rightarrow>
          map (\<lambda>message. if m_senderId message = senderId
                           then message\<lparr>m_avatarUrl := newAvatarUrl\<rparr> else message)
            (getMessages k s)
      | _ \<Rightarrow> getMessages k s)"
proof (cases c)
  case (CreateChatroom topic description mediaUrl mediaType category)
  then show ?thesis
    by (auto simp: createChatroom_def Let_def getMessages_def firstMessage_def)
next
  case SendMessage
  then show ?thesis
    by (auto simp: sendMessage_def Let_def getMessages_def commit_def split: option.splits)
next
  case UpdateUsernameRetroactively
  then show ?thesis by (simp add: getMessages_updateUsernameRetroactively)
next
  case UpdateAvatarRetroactively
  then show ?thesis by (simp add: getMessages_updateAvatarRetroactively)
qed (auto simp: getMessages_def commit_def incrementViewCount_def pinVideo_def unpinVideo_def
       cleanupInactiveUsers_def addReaction_def removeReaction_def Let_def
       split: option.splits prod.splits)

lemma reachable_chatroomId:
  "reachable s \<Longrightarrow> list_all (\<lambda>msg. m_chatroomId msg = k) (getMessages k s)"
proof (induction arbitrary: k rule: reachable.induct)
  case reachable_init
  then show ?case by (simp add: init_def getMessages_def)
next
  case (reachable_exec s now c)
  have keep: "list_all (\<lambda>msg. m_chatroomId msg = k) (map f ms)"
    if "list_all (\<lambda>msg. m_chatroomId msg = k) ms"
       and "\<And>msg. m_chatroomId (f msg) = m_chatroomId msg"
    for f and ms :: "Message list"
    using that by (induction ms) auto
  show ?case
    unfolding getMessages_exec
    using reachable_exec.IH[of k]
    by (cases c) (auto simp: firstMessage_def newMessage_def intro!: keep)
qed


text \<open>
  C9. \<open>getReplies\<close> returns exactly the messages of the room's log whose
  \<open>replyToMessageId\<close> is the parent id, in the chronological order of \<open>getMessages\<close>. In a
  reachable state every message it returns carries the room's id, and no message stored
  in another room is among them, whatever that message replies to.
\<close>

theorem getReplies_exact:
  "getReplies chatroomId parentMessageId s
     = filter (\<lambda>msg. m_replyToMessageId msg = Some parentMessageId) (getMessages chatroomId s)
   \<and> (reachable s \<longrightarrow>
         list_all (\<lambda>msg. m_chatroomId msg = chatroomId)
           (getReplies chatroomId parentMessageId s))
   \<and> (reachable s \<and> otherRoom \<noteq> chatroomId \<longrightarrow>
         set (getMessages otherRoom s) \<inter> set (getReplies chatroomId parentMessageId s) = {})"
proof -
  have own: "list_all (\<lambda>msg. m_chatroomId msg = chatroomId)
               (getReplies chatroomId parentMessageId s)"
    if "reachable s"
    using reachable_chatroomId[OF that, of chatroomId]
    by (simp add: getReplies_filter list_all_iff)
  have other: "set (getMessages otherRoom s) \<inter> set (getReplies chatroomId parentMessageId s) = {}"
    if "reachable s" and "otherRoom \<noteq> chatroomId"
    using reachable_chatroomId[OF that(1), of otherRoom] own[OF that(1)] that(2)
    by (auto simp: list_all_iff)
  show ?thesis using getReplies_filter own other by blast
qed

text \<open>
  The theorem on two rooms: messages 2 and 5 of room 0 and message 3 of room 1 all reply
  to id 0; the replies of room 0 are 2 and 5, and 3 stays in room 1.
\<close>

theorem getReplies_exact_witness:
  "reachable
     (run [(0, CreateChatroom ''t'' ''d'' ''x.com'' ''twitter'' ''c''),
           (1, CreateChatroom ''t'' ''d'' ''x.com'' ''twitter'' ''c''),
           (2, SendMessage ''a'' ''Alice'' 0 None None None ''u1'' (Some 0)),
           (3, SendMessage ''b'' ''Bob'' 1 None None None ''u2'' (Some 0)),
           (4, SendMessage ''c'' ''Carol'' 0 None None None ''u3'' None),
           (5, SendMessage ''d'' ''Dan'' 0 None None None ''u4'' (Some 0))] init)
   \<and> map m_id
       (getReplies 0 0
          (run [(0, CreateChatroom ''t'' ''d'' ''x.com'' ''twitter'' ''c''),
                (1, CreateChatroom ''t'' ''d'' ''x.com'' ''twitter'' ''c''),
                (2, SendMessage ''a'' ''Alice'' 0 None None None ''u1'' (Some 0)),
                (3, SendMessage ''b'' ''Bob'' 1 None None None ''u2'' (Some 0)),
                (4, SendMessage ''c'' ''Carol'' 0 None None None ''u3'' None),
                (5, SendMessage ''d'' ''Dan'' 0 None None None ''u4'' (Some 0))] init))
     = [2, 5]
   \<and> map m_id
       (getMessages 1
          (run [(0, CreateChatroom ''t'' ''d'' ''x.com'' ''twitter'' ''c''),
                (1, CreateChatroom ''t'' ''d'' ''x.com'' ''twitter'' ''c''),
                (2, SendMessage ''a'' ''Alice'' 0 None None None ''u1'' (Some 0)),
                (3, SendMessage ''b'' ''Bob'' 1 None None None ''u2'' (Some 0)),
                (4, SendMessage ''c'' ''Carol'' 0 None None None ''u3'' None),
                (5, SendMessage ''d'' ''Dan'' 0 None None None ''u4'' (Some 0))] init))
     = [1, 3]"
proof -
  let ?cs = "[(0, CreateChatroom ''t'' ''d'' ''x.com'' ''twitter'' ''c''),
           (1, CreateChatroom ''t'' ''d'' ''x.com'' ''twitter'' ''c''),
           (2, SendMessage ''a'' ''Alice'' 0 None None None ''u1'' (Some 0)),
           (3, SendMessage ''b'' ''Bob'' 1 None None None ''u2'' (Some 0)),
           (4, SendMessage ''c'' ''Carol'' 0 None None None ''u3'' None),
           (5, SendMessage ''d'' ''Dan'' 0 None None None ''u4'' (Some 0))]"
  have r: "reachable (run ?cs init)"
    by (rule reachable_run) (rule reachable_init)
  have log0: "map (\<lambda>msg. (m_id msg, m_replyToMessageId msg)) (getMessages 0 (run ?cs init))
                = [(0, None), (2, Some 0), (4, None), (5, Some 0)]"
    by (simp add: createChatroom_def validate_x Let_def init_def firstMessage_def
         sendMessage_def newMessage_def commit_def getMessages_def)
  have log1: "map m_id (getMessages 1 (run ?cs init)) = [1, 3]"
    by (simp add: createChatroom_def validate_x Let_def init_def firstMessage_def
         sendMessage_def newMessage_def commit_def getMessages_def)
  have "getReplies 0 0 (run ?cs init)
          = filter (\<lambda>msg. m_replyToMessageId msg = Some 0) (getMessages 0 (run ?cs init))"
    using getReplies_exact[of 0 0 "run ?cs init"] by blast
  then have "map m_id (getReplies 0 0 (run ?cs init))
          = map fst (filter (\<lambda>p. snd p = Some 0)
              (map (\<lambda>msg. (m_id msg, m_replyToMessageId msg)) (getMessages 0 (run ?cs init))))"
    by (simp add: filter_map comp_def)
  then have "map m_id (getReplies 0 0 (run ?cs init)) = [2, 5]"
    unfolding log0 by simp
  then show ?thesis using r log1 by blast
qed

lemma messageCount_exec:
  assumes inv: "\<forall>k chatroom. natMap_get (chatrooms s) k = Some chatroom
                  \<longrightarrow> c_messageCount chatroom = length (getMessages k s)"
  shows "natMap_get (chatrooms (exec now c s)) k = Some chatroom \<Longrightarrow>
           c_messageCount chatroom = length (getMessages k (exec now c s))"
  unfolding getMessages_exec using inv
  by (cases c)
     (auto simp: createChatroom_def sendMessage_def incrementViewCount_def pinVideo_def
        unpinVideo_def updateUsernameRetroactively_def updateAvatarRetroactively_def
        cleanupInactiveUsers_def addReaction_def removeReaction_def Let_def commit_def
        split: if_splits option.splits prod.splits)

lemma reachable_messageCount:
  "reachable s \<Longrightarrow> natMap_get (chatrooms s) k = Some chatroom \<Longrightarrow>
     c_messageCount chatroom = length (getMessages k s)"
proof (induction arbitrary: k chatroom rule: reachable.induct)
  case reachable_init
  then show ?case by (simp add: init_def)
next
  case (reachable_exec s now c)
  from reachable_exec.IH
  have "\<forall>k chatroom. natMap_get (chatrooms s) k = Some chatroom
          \<longrightarrow> c_messageCount chatroom = length (getMessages k s)"
    by blast
  then show ?case using reachable_exec.prems by (rule messageCount_exec)
qed

text \<open>
  C10. In every reachable state, the \<open>messageCount\<close> of every chatroom is the number of
  messages in its log. \<open>createChatroom\<close> sets the count to 1 with a log of the seed
  message alone, and \<open>sendMessage\<close> adds one message to the log and one to the count.
\<close>

theorem messageCount_is_log_length:
  "(reachable s \<and> natMap_get (chatrooms s) chatroomId = Some chatroom
      \<longrightarrow> c_messageCount chatroom = length (getMessages chatroomId s))
   \<and> (createChatroom now topic description mediaUrl mediaType category s = Inr (i, s')
      \<longrightarrow> map_option c_messageCount (natMap_get (chatrooms s') i) = Some 1
          \<and> length (getMessages i s') = 1)
   \<and> (sendMessage now content sender chatroomId mediaUrl' mediaType' avatarUrl senderId
         replyToMessageId s = Inr s''
      \<longrightarrow> length (getMessages chatroomId s'') = length (getMessages chatroomId s) + 1
          \<and> map_option c_messageCount (natMap_get (chatrooms s'') chatroomId)
              = map_option (\<lambda>chatroom. c_messageCount chatroom + 1)
                  (natMap_get (chatrooms s) chatroomId))"
proof -
  have a: "reachable s \<and> natMap_get (chatrooms s) chatroomId = Some chatroom
      \<longrightarrow> c_messageCount chatroom = length (getMessages chatroomId s)"
    using reachable_messageCount by blast
  have b: "createChatroom now topic description mediaUrl mediaType category s = Inr (i, s')
      \<longrightarrow> map_option c_messageCount (natMap_get (chatrooms s') i) = Some 1
          \<and> length (getMessages i s') = 1"
    by (auto dest!: createChatroom_Inr)
  have c: "sendMessage now content sender chatroomId mediaUrl' mediaType' avatarUrl senderId
         replyToMessageId s = Inr s''
      \<longrightarrow> length (getMessages chatroomId s'') = length (getMessages chatroomId s) + 1
          \<and> map_option c_messageCount (natMap_get (chatrooms s'') chatroomId)
              = map_option (\<lambda>chatroom. c_messageCount chatroom + 1)
                  (natMap_get (chatrooms s) chatroomId)"
    by (auto simp: sendMessage_def Let_def getMessages_def split: if_splits option.splits)
  show ?thesis using a b c by blast
qed

text \<open>
  The theorem after a room is created, two messages are sent and a rename runs in
  between: the count and the length of the log are both 3.
\<close>

theorem messageCount_is_log_length_witness:
  "reachable
     (run [(0, CreateChatroom ''t'' ''d'' ''x.com'' ''twitter'' ''c''),
           (1, SendMessage ''hi'' ''Alice'' 0 None None None ''u1'' None),
           (2, UpdateUsernameRetroactively ''u1'' ''Bob''),
           (3, SendMessage ''yo'' ''Carol'' 0 None None None ''u2'' (Some 1))] init)
   \<and> map_option c_messageCount
       (natMap_get
          (chatrooms
             (run [(0, CreateChatroom ''t'' ''d'' ''x.com'' ''twitter'' ''c''),
                   (1, SendMessage ''hi'' ''Alice'' 0 None None None ''u1'' None),
                   (2, UpdateUsernameRetroactively ''u1'' ''Bob''),
                   (3, SendMessage ''yo'' ''Carol'' 0 None None None ''u2'' (Some 1))] init))
          0)
     = Some 3
   \<and> length
       (getMessages 0
          (run [(0, CreateChatroom ''t'' ''d'' ''x.com'' ''twitter'' ''c''),
                (1, SendMessage ''hi'' ''Alice'' 0 None None None ''u1'' None),
                (2, UpdateUsernameRetroactively ''u1'' ''Bob''),
                (3, SendMessage ''yo'' ''Carol'' 0 None None None ''u2'' (Some 1))] init))
     = 3"
proof -
  let ?cs = "[(0, CreateChatroom ''t'' ''d'' ''x.com'' ''twitter'' ''c''),
           (1, SendMessage ''hi'' ''Alice'' 0 None None None ''u1'' None),
           (2, UpdateUsernameRetroactively ''u1'' ''Bob''),
           (3, SendMessage ''yo'' ''Carol'' 0 None None None ''u2'' (Some 1))]"
  let ?c = "\<lparr>c_id = 0, c_topic = ''t'', c_description = ''d'', c_mediaUrl = ''x.com'',
              c_mediaType = ''twitter'', c_createdAt = 0, c_messageCount = 3, c_viewCount = 0,
              c_pinnedVideoId = None, c_category = ''c''\<rparr>"
  have r: "reachable (run ?cs init)"
    by (rule reachable_run) (rule reachable_init)
  have room: "natMap_get (chatrooms (run ?cs init)) 0 = Some ?c"
    by (simp add: createChatroom_def validate_x Let_def init_def firstMessage_def
         sendMessage_def newMessage_def commit_def updateUsernameRetroactively_def)
  from messageCount_is_log_length[of "run ?cs init" 0 ?c] r room
  have len: "length (getMessages 0 (run ?cs init)) = 3"
    by simp
  show ?thesis using r room len by simp
qed


end
